theory Spec2Isabelle
  imports Main "HOL-Library.Word"
begin

section \<open>The client coordinator of libraries/client/client.cpp\<close>

text \<open>
  A shallow embedding of \<^verbatim>\<open>bts::client::detail::client_impl\<close> and of the
  \<^verbatim>\<open>bts::client::client\<close> facade. The chain database, the wallet and the two
  transports are collaborators whose code lives outside this file; the embedding takes
  what they answer as data (function-valued record fields and the \<open>collaborators\<close>
  record), so every theorem holds for any implementation of them.
\<close>

subsection \<open>Hashes, integers, time\<close>

type_synonym u32 = "32 word"
  \<comment> \<open>\<^verbatim>\<open>uint32_t\<close>: \<open>+\<close> and \<open>-\<close> wrap around modulo \<open>2 ^ 32\<close>\<close>

type_synonym item_hash_t = "160 word"
  \<comment> \<open>\<^verbatim>\<open>bts::net::item_hash_t\<close>, a 160-bit digest; the default-constructed value is \<open>0\<close>\<close>

type_synonym transaction_id_type = "160 word"
type_synonym block_id_type = "160 word"

type_synonym time_point = int
  \<comment> \<open>\<^verbatim>\<open>fc::time_point\<close>: microseconds since the epoch\<close>

type_synonym signature = nat
type_synonym private_key = nat

definition seconds :: "int \<Rightarrow> int" where
  "seconds n = n * 1000000"

subsection \<open>Exceptions\<close>

text \<open>
  The exceptions are those of the \<^verbatim>\<open>fc\<close> library, which every \<^verbatim>\<open>catch\<close> of the file
  names: \<open>assert_exception\<close> is what \<^verbatim>\<open>FC_ASSERT\<close> throws, \<open>key_not_found_exception\<close> what
  \<^verbatim>\<open>FC_THROW_EXCEPTION(key_not_found_exception, ...)\<close> and the chain's failed lookups
  throw, \<open>fc_exception c\<close> any other \<^verbatim>\<open>fc::exception\<close>.

  \<open>get_item_ids\<close> can also end in the C \<^verbatim>\<open>assert(false)\<close> of line 207, which (taken as
  compiled in) ends the process rather than throwing: \<open>Aborted\<close>.
\<close>

datatype exn =
    assert_exception
  | key_not_found_exception
  | fc_exception nat

datatype failure =
    Thrown exn
  | Aborted

subsection \<open>Transactions, blocks, items and messages\<close>

text \<open>
  Modelled from the spec: the headers that declare \<^verbatim>\<open>signed_transaction\<close>,
  \<^verbatim>\<open>signed_block_header\<close>, \<^verbatim>\<open>trx_block\<close>, \<^verbatim>\<open>item_id\<close> and the message types are not
  part of the file. The spec gives a transaction and a block a deterministic \<^verbatim>\<open>id()\<close>;
  the records hold the value \<^verbatim>\<open>id()\<close> returns (\<open>trx_id\<close>, \<open>header_id\<close>) next to the
  other fields the coordinator reads.
\<close>

record signed_transaction =
  trx_id :: transaction_id_type
  trx_data :: "nat list"

record signed_block_header =
  header_id :: block_id_type
  block_num :: u32
  prev :: block_id_type
  timestamp :: time_point
  trustee_signature :: signature

record trx_block = signed_block_header +
  trxs :: "signed_transaction list"

record item_id =
  item_type :: u32
  item_hash :: item_hash_t

text \<open>
  Modelled from the spec: \<^verbatim>\<open>message_type_enum\<close> of messages.hpp gives the two message
  types stable numeric tags. Only that the two tags differ is used below.
\<close>

definition trx_message_type :: u32 where
  "trx_message_type = 1000"

definition block_message_type :: u32 where
  "block_message_type = 1001"

record block_message =
  block_id :: block_id_type
  block :: trx_block
  signature :: signature

record trx_message =
  trx :: signed_transaction

datatype message =
    Block_message block_message
  | Trx_message trx_message
  | Other_message u32

subsection \<open>The chain database, as the coordinator sees it\<close>

text \<open>
  Modelled from the spec: \<^verbatim>\<open>chain_database\<close> is declared outside the file. A value of
  this record is one state of the database, given by what each query the coordinator
  makes returns in that state: \<open>Inl e\<close> when the query throws \<open>e\<close>. An empty chain
  answers \<open>head_block_num\<close> with \<^verbatim>\<open>UINT32_MAX\<close>. \<open>evaluate_transaction\<close> is a check: it
  gives \<open>Some e\<close> when it throws \<open>e\<close> on an invalid transaction, and \<open>None\<close> when it returns.
\<close>

record chain_database =
  head_block_num :: u32
  get_head_block :: signed_block_header
  fetch_block_num :: "block_id_type \<Rightarrow> exn + u32"
  fetch_block :: "u32 \<Rightarrow> exn + signed_block_header"
  fetch_trx_block :: "u32 \<Rightarrow> exn + trx_block"
  evaluate_transaction :: "signed_transaction \<Rightarrow> exn option"

subsection \<open>The item server: \<open>get_item_ids\<close>\<close>

text \<open>
  The \<^verbatim>\<open>for\<close> loop of \<open>get_item_ids\<close> (lines 197 to 210): \<open>i\<close> counts up to
  \<open>items_to_get_this_iteration\<close>, \<open>last_seen_block_num\<close> is incremented (with wrap-around)
  before each fetch, and the header's id is pushed on \<open>hashes_to_return\<close>. A
  \<open>key_not_found_exception\<close> of \<open>fetch_block\<close> is caught and reaches \<^verbatim>\<open>assert(false)\<close>; any
  other exception leaves the function.
\<close>

function get_item_ids_loop ::
  "chain_database \<Rightarrow> u32 \<Rightarrow> u32 \<Rightarrow> u32 \<Rightarrow> item_hash_t list \<Rightarrow> failure + item_hash_t list"
where
  "get_item_ids_loop db items_to_get_this_iteration i last_seen_block_num hashes_to_return =
     (if i < items_to_get_this_iteration then
        (case fetch_block db (last_seen_block_num + 1) of
           Inl e \<Rightarrow> (if e = key_not_found_exception then Inl Aborted else Inl (Thrown e))
         | Inr header \<Rightarrow>
             get_item_ids_loop db items_to_get_this_iteration (i + 1) (last_seen_block_num + 1)
               (hashes_to_return @ [header_id header]))
      else Inr hashes_to_return)"
  by pat_completeness auto
termination
proof (relation "measure (\<lambda>(db, items, i, last, hs). unat items - unat i)")
  show "wf (measure (\<lambda>(db, items, i, last, hs). unat items - unat i))"
    by simp
next
  fix db :: chain_database and items i last :: u32 and hs :: "item_hash_t list"
    and header :: signed_block_header
  assume "i < items"
  then have "unat i < unat items"
    by (simp add: word_less_nat_alt)
  moreover from \<open>i < items\<close> have "unat (i + 1) = Suc (unat i)"
    by unat_arith
  ultimately show "((db, items, i + 1, last + 1, hs @ [header_id header]), (db, items, i, last, hs))
      \<in> measure (\<lambda>(db, items, i, last, hs). unat items - unat i)"
    by simp
qed

declare get_item_ids_loop.simps [simp del]

text \<open>
  Lines 193 to 212 of \<open>get_item_ids\<close>, once \<open>last_seen_block_num\<close> is known. The second
  component is the value left in the reference parameter \<open>remaining_item_count\<close>: it has
  been assigned before the loop, so an exception of the loop leaves that value behind.
\<close>

definition get_item_ids_from ::
  "chain_database \<Rightarrow> u32 \<Rightarrow> u32 \<Rightarrow> (failure + item_hash_t list) \<times> u32"
where
  "get_item_ids_from db last_seen_block_num limit =
     (let remaining_item_count = head_block_num db - last_seen_block_num;
          items_to_get_this_iteration = min limit remaining_item_count
      in
        (case get_item_ids_loop db items_to_get_this_iteration 0 last_seen_block_num [] of
           Inl e \<Rightarrow> (Inl e, remaining_item_count)
         | Inr hashes_to_return \<Rightarrow>
             (Inr hashes_to_return, remaining_item_count - items_to_get_this_iteration)))"

text \<open>
  \<open>get_item_ids\<close> (lines 173 to 213). \<open>remaining_item_count\<close> is a reference parameter:
  the function takes its value on entry and returns its value on exit as the second
  component, next to the returned vector or the exception. \<open>- 1\<close> is \<^verbatim>\<open>(uint32_t)-1\<close>.
\<close>

definition get_item_ids ::
  "chain_database \<Rightarrow> item_id \<Rightarrow> u32 \<Rightarrow> u32 \<Rightarrow> (failure + item_hash_t list) \<times> u32"
where
  "get_item_ids db from_id remaining_item_count limit =
     (if item_type from_id \<noteq> block_message_type
      then (Inl (Thrown assert_exception), remaining_item_count)
      else
        (case fetch_block_num db (item_hash from_id) of
           Inr last_seen_block_num \<Rightarrow> get_item_ids_from db last_seen_block_num limit
         | Inl e \<Rightarrow>
             if e = key_not_found_exception then
               (if item_hash from_id = 0 then get_item_ids_from db (- 1) limit
                else (Inr [], 0))
             else (Inl (Thrown e), remaining_item_count)))"

text \<open>
  A contiguous chain of height \<open>H\<close>, in the words of the specification: the head is
  \<open>H\<close>, which is not \<^verbatim>\<open>UINT32_MAX\<close> (the head number of an empty chain), and
  \<open>fetch_block\<close> finds a header, \<open>blocks n\<close>, at every height \<open>n\<close> from \<open>0\<close> to \<open>H\<close>.
\<close>

definition contiguous_chain ::
  "chain_database \<Rightarrow> nat \<Rightarrow> (nat \<Rightarrow> signed_block_header) \<Rightarrow> bool"
where
  "contiguous_chain db H blocks \<longleftrightarrow>
     H < 2 ^ 32 - 1 \<and> head_block_num db = of_nat H \<and>
     (\<forall>n \<in> {0..H}. fetch_block db (of_nat n) = Inr (blocks n))"

subsection \<open>The coordinator's state\<close>

text \<open>
  The transports record the calls the coordinator makes on them, in order. The
  constructor of \<open>client_impl\<close> creates exactly one of \<^verbatim>\<open>_chain_client\<close> and
  \<^verbatim>\<open>_p2p_node\<close> and nothing assigns them afterwards, so the two pointers are held as one
  tagged value: \<^verbatim>\<open>if (_chain_client)\<close> is the case \<open>Chain_client\<close>, its \<^verbatim>\<open>else\<close> the case
  \<open>P2p_node\<close>.
\<close>

record chain_client =
  sent_blocks :: "trx_block list"
  sent_transactions :: "signed_transaction list"

record node =
  broadcasts :: "message list"

datatype transport =
    Chain_client chain_client
  | P2p_node node

text \<open>
  \<^verbatim>\<open>_pending_trxs\<close> is a \<^verbatim>\<open>std::unordered_map\<close>, held as an association list with
  \<open>umap_insert\<close>, \<open>umap_erase\<close> and \<open>umap_find\<close> for the three operations the coordinator
  uses. The iteration order of the C++ container is unspecified; the list keeps the
  order of insertion, and nothing proved below depends on the order.
\<close>

type_synonym pending_map = "(transaction_id_type \<times> signed_transaction) list"

definition umap_find :: "pending_map \<Rightarrow> transaction_id_type \<Rightarrow> signed_transaction option" where
  "umap_find m k = map_of m k"

definition umap_insert :: "transaction_id_type \<times> signed_transaction \<Rightarrow> pending_map \<Rightarrow> pending_map \<times> bool" where
  "umap_insert p m = (if umap_find m (fst p) = None then (m @ [p], True) else (m, False))"

definition umap_erase :: "transaction_id_type \<Rightarrow> pending_map \<Rightarrow> pending_map" where
  "umap_erase k m = filter (\<lambda>p. fst p \<noteq> k) m"

record 'w client_impl =
  trustee_key :: private_key
  last_block :: time_point
  transport :: transport
  chain_db :: chain_database
  pending_trxs :: pending_map
  wallet :: 'w

text \<open>
  The collaborators' operations that change state or can throw, as the coordinator
  calls them; \<open>'w\<close> is the wallet's state. \<open>push_block\<close>, \<open>scan_chain\<close>,
  \<open>generate_next_block\<close> and \<open>sign\<close> give \<open>Inl e\<close> when they throw \<open>e\<close>; the three transport
  calls give \<open>Some e\<close> when they throw \<open>e\<close>.

  Modelled from the spec: a block that \<open>push_block\<close> rejects leaves the chain as it was.
\<close>

record 'w collaborators =
  push_block :: "chain_database \<Rightarrow> trx_block \<Rightarrow> exn + chain_database"
  scan_chain :: "'w \<Rightarrow> chain_database \<Rightarrow> u32 \<Rightarrow> exn + 'w"
  generate_next_block :: "'w \<Rightarrow> chain_database \<Rightarrow> signed_transaction list \<Rightarrow> exn + trx_block"
  sign :: "trx_block \<Rightarrow> private_key \<Rightarrow> exn + trx_block"
  node_broadcast :: "node \<Rightarrow> message \<Rightarrow> exn option"
  chain_client_broadcast_block :: "chain_client \<Rightarrow> trx_block \<Rightarrow> exn option"
  chain_client_broadcast_transaction :: "chain_client \<Rightarrow> signed_transaction \<Rightarrow> exn option"

text \<open>
  A member function that changes the coordinator returns the exception it throws, if
  any, and the state it leaves behind: an exception does not undo what was done before it.
\<close>

type_synonym 'w outcome = "exn option \<times> 'w client_impl"

subsection \<open>The inbound handler\<close>

definition get_pending_transactions :: "'w client_impl \<Rightarrow> signed_transaction list" where
  "get_pending_transactions s = map snd (pending_trxs s)"

text \<open>\<open>on_new_block\<close> (lines 118 to 134); the \<^verbatim>\<open>catch\<close> logs and rethrows.\<close>

definition on_new_block :: "'w collaborators \<Rightarrow> 'w client_impl \<Rightarrow> trx_block \<Rightarrow> 'w outcome" where
  "on_new_block env s blk =
     (case push_block env (chain_db s) blk of
        Inl e \<Rightarrow> (Some e, s)
      | Inr db \<Rightarrow>
          (let s1 = s\<lparr>chain_db := db,
                      pending_trxs := fold (\<lambda>t m. umap_erase (trx_id t) m) (trxs blk) (pending_trxs s)\<rparr>
           in
             (case scan_chain env (wallet s1) (chain_db s1) (block_num blk) of
                Inl e \<Rightarrow> (Some e, s1)
              | Inr w \<Rightarrow> (None, s1\<lparr>wallet := w\<rparr>))))"

text \<open>\<open>on_new_transaction\<close> (lines 136 to 143); both branches of the \<^verbatim>\<open>if\<close> only log.\<close>

definition on_new_transaction :: "'w client_impl \<Rightarrow> signed_transaction \<Rightarrow> 'w outcome" where
  "on_new_transaction s t =
     (case evaluate_transaction (chain_db s) t of
        Some e \<Rightarrow> (Some e, s)
      | None \<Rightarrow> (None, s\<lparr>pending_trxs := fst (umap_insert (trx_id t, t) (pending_trxs s))\<rparr>))"

subsection \<open>The item server: \<open>has_item\<close>, \<open>handle_message\<close>, \<open>get_item\<close>\<close>

definition has_item :: "'w client_impl \<Rightarrow> item_id \<Rightarrow> bool" where
  "has_item s i = False"

definition handle_message :: "'w collaborators \<Rightarrow> 'w client_impl \<Rightarrow> message \<Rightarrow> 'w outcome" where
  "handle_message env s message_to_handle =
     (case message_to_handle of
        Block_message block_message_to_handle \<Rightarrow> on_new_block env s (block block_message_to_handle)
      | Trx_message trx_message_to_handle \<Rightarrow> on_new_transaction s (trx trx_message_to_handle)
      | Other_message tag \<Rightarrow> (None, s))"

text \<open>
  \<open>get_item\<close> (lines 215 to 252). In the branch for \<open>trx_message_type\<close> the source fills
  the local \<^verbatim>\<open>trx_message_to_send\<close> from the mempool and leaves the \<^verbatim>\<open>if\<close> without
  returning it, so control reaches the \<^verbatim>\<open>FC_THROW_EXCEPTION\<close> of line 251 whatever the
  lookup found: the local is bound here and not used.
\<close>

definition get_item :: "'w client_impl \<Rightarrow> item_id \<Rightarrow> exn + message" where
  "get_item s i =
     (if item_type i = block_message_type then
        (case fetch_block_num (chain_db s) (item_hash i) of
           Inl e \<Rightarrow> Inl e
         | Inr block_number \<Rightarrow>
             (case fetch_trx_block (chain_db s) block_number of
                Inl e \<Rightarrow> Inl e
              | Inr b \<Rightarrow>
                  if item_hash i = header_id b then
                    Inr (Block_message
                      \<lparr>block_id = header_id b, block = b, signature = trustee_signature b\<rparr>)
                  else Inl assert_exception))
      else
        (let trx_message_to_send =
           (if item_type i = trx_message_type then umap_find (pending_trxs s) (item_hash i)
            else None)
         in Inl key_not_found_exception))"

subsection \<open>The facade's \<open>broadcast_transaction\<close>\<close>

text \<open>\<open>client::broadcast_transaction\<close> (lines 302 to 312).\<close>

definition broadcast_transaction ::
  "'w collaborators \<Rightarrow> 'w client_impl \<Rightarrow> signed_transaction \<Rightarrow> 'w outcome"
where
  "broadcast_transaction env s t =
     (case transport s of
        Chain_client cc \<Rightarrow>
          (chain_client_broadcast_transaction env cc t,
           s\<lparr>transport := Chain_client (cc\<lparr>sent_transactions := sent_transactions cc @ [t]\<rparr>)\<rparr>)
      | P2p_node n \<Rightarrow>
          (let s1 = s\<lparr>transport := P2p_node (n\<lparr>broadcasts := broadcasts n @ [Trx_message \<lparr>trx = t\<rparr>]\<rparr>)\<rparr>
           in
             (case node_broadcast env n (Trx_message \<lparr>trx = t\<rparr>) of
                Some e \<Rightarrow> (Some e, s1)
              | None \<Rightarrow> on_new_transaction s1 t)))"

subsection \<open>The trustee loop\<close>

text \<open>
  The body of the \<^verbatim>\<open>try\<close> block of \<open>trustee_loop\<close> up to the publication (lines 80 to
  91): assemble, sign, publish, and in peer mode apply the block to oneself.
\<close>

definition produce_block ::
  "'w collaborators \<Rightarrow> 'w client_impl \<Rightarrow> signed_transaction list \<Rightarrow> 'w outcome"
where
  "produce_block env s pending =
     (case generate_next_block env (wallet s) (chain_db s) pending of
        Inl e \<Rightarrow> (Some e, s)
      | Inr blk0 \<Rightarrow>
          (case sign env blk0 (trustee_key s) of
             Inl e \<Rightarrow> (Some e, s)
           | Inr blk \<Rightarrow>
               (case transport s of
                  Chain_client cc \<Rightarrow>
                    (chain_client_broadcast_block env cc blk,
                     s\<lparr>transport := Chain_client (cc\<lparr>sent_blocks := sent_blocks cc @ [blk]\<rparr>)\<rparr>)
                | P2p_node n \<Rightarrow>
                    (let m = Block_message
                           \<lparr>block_id = header_id blk, block = blk, signature = trustee_signature blk\<rparr>;
                         s1 = s\<lparr>transport := P2p_node (n\<lparr>broadcasts := broadcasts n @ [m]\<rparr>)\<rparr>
                     in
                       (case node_broadcast env n m of
                          Some e \<Rightarrow> (Some e, s1)
                        | None \<Rightarrow> on_new_block env s1 blk)))))"

text \<open>
  One iteration of the \<^verbatim>\<open>while\<close> loop, up to its sleep (lines 75 to 99). \<open>gate_time\<close>
  is what \<^verbatim>\<open>fc::time_point::now()\<close> returns in the condition of line 77 and \<open>done_time\<close>
  what it returns in line 93. The \<^verbatim>\<open>catch\<close> of line 95 logs and goes on with the state the
  exception left.
\<close>

definition trustee_iteration ::
  "'w collaborators \<Rightarrow> time_point \<Rightarrow> time_point \<Rightarrow> 'w client_impl \<Rightarrow> 'w client_impl"
where
  "trustee_iteration env gate_time done_time s =
     (let pending = get_pending_transactions s in
        if pending \<noteq> [] \<and> gate_time - last_block s > seconds 30 then
          (case produce_block env s pending of
             (None, s1) \<Rightarrow> s1\<lparr>last_block := done_time\<rparr>
           | (Some e, s1) \<Rightarrow> s1)
        else s)"

text \<open>
  The coordinator runs on a cooperative scheduler: while the loop sleeps in
  \<^verbatim>\<open>fc::usleep(fc::seconds(1))\<close> (line 100) the other tasks call the coordinator, one call
  at a time. \<open>call\<close> lists the member functions of this file that change it; an exception
  of such a call goes to its caller, and the coordinator keeps the state the call left.
\<close>

datatype call =
    On_new_block trx_block
  | On_new_transaction signed_transaction
  | Handle_message message
  | Broadcast_transaction signed_transaction

fun run_call :: "'w collaborators \<Rightarrow> 'w client_impl \<Rightarrow> call \<Rightarrow> 'w outcome" where
  "run_call env s (On_new_block blk) = on_new_block env s blk"
| "run_call env s (On_new_transaction t) = on_new_transaction s t"
| "run_call env s (Handle_message m) = handle_message env s m"
| "run_call env s (Broadcast_transaction t) = broadcast_transaction env s t"

definition usleep :: "'w collaborators \<Rightarrow> 'w client_impl \<Rightarrow> call list \<Rightarrow> 'w client_impl" where
  "usleep env s calls = fold (\<lambda>c s1. snd (run_call env s1 c)) calls s"

text \<open>
  The loop runs until its cancellation is seen. A \<open>tick\<close> is what one iteration meets:
  the two readings of the clock and the calls made during its sleep; the list of ticks
  ends where \<^verbatim>\<open>_trustee_loop_complete.canceled()\<close> is true.
  \<open>trustee_loop\<close> (lines 70 to 102) first sets \<^verbatim>\<open>_last_block\<close> from the head of the chain.
\<close>

record tick =
  now_gate :: time_point
  now_done :: time_point
  during_sleep :: "call list"

fun trustee_iterations ::
  "'w collaborators \<Rightarrow> 'w client_impl \<Rightarrow> tick list \<Rightarrow> 'w client_impl"
where
  "trustee_iterations env s [] = s"
| "trustee_iterations env s (t # ticks) =
     trustee_iterations env
       (usleep env (trustee_iteration env (now_gate t) (now_done t) s) (during_sleep t)) ticks"

definition trustee_loop ::
  "'w collaborators \<Rightarrow> 'w client_impl \<Rightarrow> tick list \<Rightarrow> 'w client_impl"
where
  "trustee_loop env s ticks =
     trustee_iterations env (s\<lparr>last_block := timestamp (get_head_block (chain_db s))\<rparr>) ticks"

subsection \<open>The constructor\<close>

text \<open>
  \<open>client_impl(bool use_p2p)\<close> (lines 21 to 34) creates the one transport, with no call
  made on it yet.
\<close>

definition client_impl_transport :: "bool \<Rightarrow> transport" where
  "client_impl_transport use_p2p =
     (if use_p2p then P2p_node \<lparr>broadcasts = []\<rparr>
      else Chain_client \<lparr>sent_blocks = [], sent_transactions = []\<rparr>)"

subsection \<open>A chain to run the item server on\<close>

text \<open>
  \<open>demo_chain H\<close> holds the blocks of heights \<open>0\<close> to \<open>H\<close>; the block of height \<open>n\<close> has
  the id \<open>100 + n\<close>. It rejects a transaction without data.
\<close>

definition demo_header :: "nat \<Rightarrow> signed_block_header" where
  "demo_header n =
     \<lparr>header_id = of_nat (100 + n), block_num = of_nat n,
      prev = (if n = 0 then 0 else of_nat (99 + n)),
      timestamp = seconds (int n), trustee_signature = 0\<rparr>"

definition demo_chain :: "nat \<Rightarrow> chain_database" where
  "demo_chain H =
     \<lparr>head_block_num = of_nat H,
      get_head_block = demo_header H,
      fetch_block_num =
        (\<lambda>h. if 100 \<le> unat h \<and> unat h \<le> 100 + H then Inr (of_nat (unat h - 100))
              else Inl key_not_found_exception),
      fetch_block =
        (\<lambda>n. if unat n \<le> H then Inr (demo_header (unat n)) else Inl key_not_found_exception),
      fetch_trx_block =
        (\<lambda>n. if unat n \<le> H
              then Inr (signed_block_header.extend (demo_header (unat n)) (trx_block.fields []))
              else Inl key_not_found_exception),
      evaluate_transaction = (\<lambda>t. if trx_data t = [] then Some (fc_exception 0) else None)\<rparr>"

definition demo_empty_chain :: chain_database where
  "demo_empty_chain =
     \<lparr>head_block_num = - 1,
      get_head_block = demo_header 0,
      fetch_block_num = (\<lambda>h. Inl key_not_found_exception),
      fetch_block = (\<lambda>n. Inl key_not_found_exception),
      fetch_trx_block = (\<lambda>n. Inl key_not_found_exception),
      evaluate_transaction = (\<lambda>t. if trx_data t = [] then Some (fc_exception 0) else None)\<rparr>"

subsection \<open>Collaborators and a coordinator to run the handlers on\<close>

text \<open>
  \<open>demo_push_block\<close> accepts the block whose number is one more than the head's and
  rejects every other block; \<open>demo_env\<close> has a wallet that counts the blocks it has
  scanned, assembles the next block from the pending transactions and signs it with
  the key, and transports that never throw. \<open>demo_client\<close> is a coordinator bound to
  \<open>demo_chain 10\<close>, in peer mode when \<open>use_p2p\<close> is true.
\<close>

definition demo_trx :: "nat \<Rightarrow> signed_transaction" where
  "demo_trx n = \<lparr>trx_id = of_nat n, trx_data = [n]\<rparr>"

definition demo_invalid_trx :: signed_transaction where
  "demo_invalid_trx = \<lparr>trx_id = 9, trx_data = []\<rparr>"

definition demo_block :: "u32 \<Rightarrow> signed_transaction list \<Rightarrow> trx_block" where
  "demo_block n ts =
     \<lparr>header_id = 100 + ucast n, block_num = n, prev = 99 + ucast n,
      timestamp = seconds (uint n), trustee_signature = 0, trxs = ts\<rparr>"

definition demo_push_block :: "chain_database \<Rightarrow> trx_block \<Rightarrow> exn + chain_database" where
  "demo_push_block db blk =
     (if block_num blk = head_block_num db + 1 then
        Inr (db\<lparr>head_block_num := block_num blk,
                get_head_block := signed_block_header.truncate blk,
                fetch_block_num := (fetch_block_num db)(header_id blk := Inr (block_num blk)),
                fetch_block := (fetch_block db)(block_num blk := Inr (signed_block_header.truncate blk)),
                fetch_trx_block := (fetch_trx_block db)(block_num blk := Inr blk)\<rparr>)
      else Inl (fc_exception 1))"

definition demo_env :: "nat collaborators" where
  "demo_env =
     \<lparr>push_block = demo_push_block,
      scan_chain = (\<lambda>w db n. Inr (Suc (unat n))),
      generate_next_block = (\<lambda>w db pending. Inr (demo_block (head_block_num db + 1) pending)),
      sign = (\<lambda>blk k. Inr (blk\<lparr>trustee_signature := k\<rparr>)),
      node_broadcast = (\<lambda>n m. None),
      chain_client_broadcast_block = (\<lambda>cc blk. None),
      chain_client_broadcast_transaction = (\<lambda>cc t. None)\<rparr>"

definition demo_client :: "bool \<Rightarrow> pending_map \<Rightarrow> nat client_impl" where
  "demo_client use_p2p pending =
     \<lparr>trustee_key = 42, last_block = 0, transport = client_impl_transport use_p2p,
      chain_db = demo_chain 10, pending_trxs = pending, wallet = 11\<rparr>"

text \<open>
  A wallet that throws when asked for the next block, a wallet that throws when asked
  to scan the chain, a tick in which the clock reads less at line 93 than it read at
  line 77, and two ticks of the trustee loop with a transaction arriving during the
  first sleep.
\<close>

definition demo_env_wallet_throws :: "nat collaborators" where
  "demo_env_wallet_throws = demo_env\<lparr>generate_next_block := (\<lambda>w db pending. Inl (fc_exception 2))\<rparr>"

definition demo_env_scan_throws :: "nat collaborators" where
  "demo_env_scan_throws = demo_env\<lparr>scan_chain := (\<lambda>w db n. Inl (fc_exception 3))\<rparr>"

definition demo_backward_tick :: tick where
  "demo_backward_tick = \<lparr>now_gate = seconds 100, now_done = seconds 5, during_sleep = []\<rparr>"

definition demo_ticks :: "tick list" where
  "demo_ticks =
     [\<lparr>now_gate = seconds 41, now_done = seconds 42, during_sleep = [On_new_transaction (demo_trx 4)]\<rparr>,
      \<lparr>now_gate = seconds 80, now_done = seconds 81, during_sleep = []\<rparr>]"

section \<open>Properties\<close>

lemma message_types_differ: "trx_message_type \<noteq> block_message_type"
  by (simp add: trx_message_type_def block_message_type_def)

subsection \<open>\<open>get_item_ids\<close>: the type check and the unknown hash\<close>

lemma get_item_ids_loop_no_assert_exception:
  "\<forall>n. fetch_block db n \<noteq> Inl assert_exception \<Longrightarrow>
   get_item_ids_loop db items i l acc \<noteq> Inl (Thrown assert_exception)"
proof (induction db items i l acc rule: get_item_ids_loop.induct)
  case (1 db items i l acc)
  show ?case
  proof (cases "fetch_block db (l + 1)")
    case (Inl e)
    with "1.prems" show ?thesis
      by (subst get_item_ids_loop.simps) auto
  next
    case (Inr header)
    with 1 show ?thesis
      by (subst get_item_ids_loop.simps) auto
  qed
qed

text \<open>
  C9. When \<open>from_id.item_type\<close> is not \<open>block_message_type\<close>, \<open>get_item_ids\<close> throws
  the assertion's exception whatever the chain holds, and leaves \<open>remaining_item_count\<close>
  as it was. When the type is \<open>block_message_type\<close> the assertion passes: unless a call
  of the chain database throws an \<open>assert_exception\<close> of its own, \<open>get_item_ids\<close> does not
  end with one.
\<close>

theorem get_item_ids_requires_block_type:
  "(item_type from_id \<noteq> block_message_type \<longrightarrow>
      get_item_ids db from_id r limit = (Inl (Thrown assert_exception), r)) \<and>
   (item_type from_id = block_message_type \<longrightarrow>
      fetch_block_num db (item_hash from_id) \<noteq> Inl assert_exception \<longrightarrow>
      (\<forall>n. fetch_block db n \<noteq> Inl assert_exception) \<longrightarrow>
      fst (get_item_ids db from_id r limit) \<noteq> Inl (Thrown assert_exception))"
  using get_item_ids_loop_no_assert_exception [of db]
  by (auto simp: get_item_ids_def get_item_ids_from_def Let_def split: sum.splits)

theorem get_item_ids_requires_block_type_witness:
  "get_item_ids (demo_chain 10) \<lparr>item_type = trx_message_type, item_hash = 103\<rparr> 5 4
     = (Inl (Thrown assert_exception), 5) \<and>
   fst (get_item_ids (demo_chain 10) \<lparr>item_type = block_message_type, item_hash = 103\<rparr> 5 4)
     \<noteq> Inl (Thrown assert_exception)"
  using
    get_item_ids_requires_block_type
      [of "\<lparr>item_type = trx_message_type, item_hash = 103\<rparr>" "demo_chain 10" 5 4]
    get_item_ids_requires_block_type
      [of "\<lparr>item_type = block_message_type, item_hash = 103\<rparr>" "demo_chain 10" 5 4]
  by (simp add: demo_chain_def message_types_differ)

text \<open>
  C8. When the from-hash is not zero and the chain does not know it (\<open>fetch_block_num\<close>
  throws \<open>key_not_found_exception\<close>), \<open>get_item_ids\<close> returns the empty vector, sets
  \<open>remaining_item_count\<close> to \<open>0\<close> and throws nothing.
\<close>

theorem get_item_ids_unknown_hash:
  assumes "item_type from_id = block_message_type"
    and "fetch_block_num db (item_hash from_id) = Inl key_not_found_exception"
    and "item_hash from_id \<noteq> 0"
  shows "get_item_ids db from_id r limit = (Inr [], 0)"
  using assms by (simp add: get_item_ids_def)

theorem get_item_ids_unknown_hash_witness:
  "get_item_ids (demo_chain 10) \<lparr>item_type = block_message_type, item_hash = 7\<rparr> 5 100
     = (Inr [], 0)"
  using get_item_ids_unknown_hash
    [of "\<lparr>item_type = block_message_type, item_hash = 7\<rparr>" "demo_chain 10" 5 100]
  by (simp add: demo_chain_def)

subsection \<open>\<open>get_item_ids\<close>: the slice of the chain it returns\<close>

lemma u32_succ: "(i::u32) < items \<Longrightarrow> unat (i + 1) = Suc (unat i)"
  by unat_arith

lemma get_item_ids_loop_fetches:
  assumes "\<forall>n. p \<le> n \<and> n < p + c \<longrightarrow> fetch_block db (of_nat n) = Inr (blocks n)"
    and "l + 1 = of_nat p"
    and "unat items = unat i + c"
  shows "get_item_ids_loop db items i l acc
           = Inr (acc @ map (\<lambda>n. header_id (blocks n)) [p ..< p + c])"
  using assms
proof (induction c arbitrary: i l acc p)
  case 0
  then have "\<not> i < items"
    by (simp add: word_less_nat_alt)
  then show ?case
    by (subst get_item_ids_loop.simps) simp
next
  case (Suc c)
  from Suc.prems(3) have lt: "i < items"
    by (simp add: word_less_nat_alt)
  have here: "fetch_block db (l + 1) = Inr (blocks p)"
    using Suc.prems(1,2) by simp
  have "get_item_ids_loop db items (i + 1) (l + 1) (acc @ [header_id (blocks p)])
          = Inr ((acc @ [header_id (blocks p)]) @ map (\<lambda>n. header_id (blocks n)) [Suc p ..< Suc p + c])"
  proof (rule Suc.IH)
    show "\<forall>n. Suc p \<le> n \<and> n < Suc p + c \<longrightarrow> fetch_block db (of_nat n) = Inr (blocks n)"
      using Suc.prems(1) by simp
    show "l + 1 + 1 = of_nat (Suc p)"
      using Suc.prems(2) by simp
    show "unat items = unat (i + 1) + c"
      using Suc.prems(3) u32_succ [OF lt] by simp
  qed
  moreover have "[p ..< p + Suc c] = p # [Suc p ..< Suc p + c]"
    by (simp add: upt_conv_Cons del: upt_Suc)
  ultimately show ?case
    using lt here by (subst get_item_ids_loop.simps) (simp del: upt_Suc)
qed

lemma unat_of_nat_u32: "n < 2 ^ 32 \<Longrightarrow> unat (of_nat n :: u32) = n"
  by (simp add: unat_of_nat)

lemma get_item_ids_from_contiguous:
  assumes "contiguous_chain db H blocks"
    and "p \<le> Suc H" and "l + 1 = of_nat p"
  shows "get_item_ids_from db l limit =
           (Inr (map (\<lambda>n. header_id (blocks n)) [p ..< p + min (unat limit) (Suc H - p)]),
            of_nat (Suc H - p - unat limit))"
proof -
  from assms(1) have H: "H < 2 ^ 32 - 1" and head: "head_block_num db = of_nat H"
    and blocks: "\<forall>n \<in> {0..H}. fetch_block db (of_nat n) = Inr (blocks n)"
    by (simp_all add: contiguous_chain_def)
  have rem: "head_block_num db - l = of_nat (Suc H - p)"
  proof -
    have "head_block_num db - l = of_nat (Suc H) - of_nat p"
      using head assms(3) [symmetric] by simp
    also have "\<dots> = of_nat (Suc H - p)"
      using assms(2) by (simp add: of_nat_diff)
    finally show ?thesis .
  qed
  have urem: "unat (head_block_num db - l) = Suc H - p"
    using H by (simp add: rem unat_of_nat_u32)
  define c where "c = min (unat limit) (Suc H - p)"
  have items: "unat (min limit (head_block_num db - l)) = c"
    by (simp add: c_def min_def word_le_nat_alt urem)
  have loop: "get_item_ids_loop db (min limit (head_block_num db - l)) 0 l []
                = Inr ([] @ map (\<lambda>n. header_id (blocks n)) [p ..< p + c])"
  proof (rule get_item_ids_loop_fetches)
    show "\<forall>n. p \<le> n \<and> n < p + c \<longrightarrow> fetch_block db (of_nat n) = Inr (blocks n)"
      using blocks assms(2) by (auto simp: c_def)
    show "l + 1 = of_nat p" by (fact assms(3))
    show "unat (min limit (head_block_num db - l)) = unat (0::u32) + c"
      by (simp add: items)
  qed
  have left: "head_block_num db - l - min limit (head_block_num db - l) = of_nat (Suc H - p - unat limit)"
  proof -
    have "min limit (head_block_num db - l) \<le> head_block_num db - l"
      by simp
    then have "unat (head_block_num db - l - min limit (head_block_num db - l)) = (Suc H - p) - c"
      by (simp add: unat_sub items urem)
    also have "\<dots> = Suc H - p - unat limit"
      by (simp add: c_def)
    finally have "of_nat (unat (head_block_num db - l - min limit (head_block_num db - l)))
                    = (of_nat (Suc H - p - unat limit) :: u32)"
      by simp
    then show ?thesis by simp
  qed
  show ?thesis
    by (simp add: get_item_ids_from_def Let_def loop left c_def)
qed

lemma demo_chain_contiguous:
  "H < 2 ^ 32 - 1 \<Longrightarrow> contiguous_chain (demo_chain H) H demo_header"
  by (simp add: contiguous_chain_def demo_chain_def unat_of_nat_u32)

lemma map_upto_nat: "map (\<lambda>n. f (nat n)) [0 .. int m - 1] = map f [0 ..< m]"
proof (induction m)
  case 0
  show ?case by simp
next
  case (Suc m)
  have "[0 .. int (Suc m) - 1] = [0 .. int m - 1] @ [int m]"
    using upto_rec2 [of 0 "int m"] by simp
  with Suc show ?case by simp
qed

text \<open>
  C1. On a contiguous chain of height \<open>H\<close>, when the from-hash is known and is the hash
  of block \<open>k\<close>, \<open>get_item_ids\<close> returns the ids of the blocks \<open>k + 1\<close> to
  \<open>min (k + limit) H\<close> in ascending order of height, and leaves
  \<open>max 0 (H - k - limit)\<close> in \<open>remaining_item_count\<close>.
\<close>

theorem get_item_ids_after_known_block:
  assumes "contiguous_chain db H blocks"
    and "item_type from_id = block_message_type"
    and "fetch_block_num db (item_hash from_id) = Inr (of_nat k)"
    and "k \<le> H"
  shows "fst (get_item_ids db from_id r limit)
           = Inr (map (\<lambda>n. header_id (blocks n)) [k + 1 ..< Suc (min (k + unat limit) H)]) \<and>
         uint (snd (get_item_ids db from_id r limit)) = max 0 (int H - int k - uint limit)"
proof -
  have known: "get_item_ids db from_id r limit = get_item_ids_from db (of_nat k) limit"
    using assms(2,3) by (simp add: get_item_ids_def)
  have run0: "get_item_ids_from db (of_nat k) limit =
      (Inr (map (\<lambda>n. header_id (blocks n)) [Suc k ..< Suc k + min (unat limit) (Suc H - Suc k)]),
       of_nat (Suc H - Suc k - unat limit))"
  proof (rule get_item_ids_from_contiguous [OF assms(1)])
    show "Suc k \<le> Suc H" using assms(4) by simp
    show "(of_nat k :: u32) + 1 = of_nat (Suc k)" by simp
  qed
  have bound: "Suc k + min (unat limit) (Suc H - Suc k) = Suc (min (k + unat limit) H)"
    using assms(4) by (auto simp: min_def)
  have sub: "Suc H - Suc k - unat limit = H - k - unat limit"
    by simp
  have run: "get_item_ids_from db (of_nat k) limit =
      (Inr (map (\<lambda>n. header_id (blocks n)) [k + 1 ..< Suc (min (k + unat limit) H)]),
       of_nat (H - k - unat limit))"
    unfolding run0 bound sub by simp
  from assms(1) have "H < 2 ^ 32"
    by (simp add: contiguous_chain_def)
  then have "H - k - unat limit < 2 ^ 32"
    by simp
  then have "uint (of_nat (H - k - unat limit) :: u32) = int (H - k - unat limit)"
    unfolding uint_nat by (simp only: unat_of_nat_u32)
  also have "\<dots> = max 0 (int H - int k - uint limit)"
    unfolding uint_nat using assms(4) by arith
  finally have left: "uint (of_nat (H - k - unat limit) :: u32) = max 0 (int H - int k - uint limit)" .
  show ?thesis
  proof (intro conjI)
    show "fst (get_item_ids db from_id r limit)
            = Inr (map (\<lambda>n. header_id (blocks n)) [k + 1 ..< Suc (min (k + unat limit) H)])"
      unfolding known run by (rule fst_conv)
    show "uint (snd (get_item_ids db from_id r limit)) = max 0 (int H - int k - uint limit)"
      unfolding known run snd_conv by (rule left)
  qed
qed

theorem get_item_ids_after_known_block_witness:
  "fst (get_item_ids (demo_chain 10) \<lparr>item_type = block_message_type, item_hash = 103\<rparr> 0 4)
     = Inr [104, 105, 106, 107] \<and>
   snd (get_item_ids (demo_chain 10) \<lparr>item_type = block_message_type, item_hash = 103\<rparr> 0 4) = 3"
proof -
  have c: "contiguous_chain (demo_chain 10) 10 demo_header"
    by (rule demo_chain_contiguous) simp
  have t: "item_type \<lparr>item_type = block_message_type, item_hash = 103\<rparr> = block_message_type"
    by simp
  have f: "fetch_block_num (demo_chain 10) (item_hash \<lparr>item_type = block_message_type, item_hash = 103\<rparr>)
             = Inr (of_nat 3)"
    by (simp add: demo_chain_def)
  have k: "(3::nat) \<le> 10" by simp
  from get_item_ids_after_known_block [OF c t f k, of 0 4]
  have "fst (get_item_ids (demo_chain 10) \<lparr>item_type = block_message_type, item_hash = 103\<rparr> 0 4)
          = Inr [104, 105, 106, 107]"
    and "uint (snd (get_item_ids (demo_chain 10) \<lparr>item_type = block_message_type, item_hash = 103\<rparr> 0 4)) = 3"
    by (simp_all add: demo_header_def)
  then show ?thesis
    by (simp add: word_uint_eq_iff)
qed

text \<open>
  C7. When the from-hash is the zero hash, which no block has, \<open>get_item_ids\<close> goes on
  with \<open>last_seen_block_num\<close> = \<^verbatim>\<open>UINT32_MAX\<close> = \<open>4294967295\<close>. With the wrap-around of
  32-bit arithmetic, on a contiguous chain of height \<open>H\<close> it returns the ids of the blocks
  \<open>0\<close> to \<open>min (limit - 1) H\<close> in ascending order; on an empty chain, whose
  \<open>head_block_num\<close> is \<^verbatim>\<open>UINT32_MAX\<close>, it returns the empty vector and
  \<open>remaining_item_count = 0\<close>.
\<close>

theorem get_item_ids_from_zero_hash:
  assumes "item_type from_id = block_message_type"
    and "item_hash from_id = 0"
    and "fetch_block_num db 0 = Inl key_not_found_exception"
  shows "get_item_ids db from_id r limit = get_item_ids_from db 4294967295 limit \<and>
         (contiguous_chain db H blocks \<longrightarrow>
            fst (get_item_ids db from_id r limit)
              = Inr (map (\<lambda>n. header_id (blocks (nat n))) [0 .. min (uint limit - 1) (int H)])) \<and>
         (head_block_num db = 4294967295 \<longrightarrow> get_item_ids db from_id r limit = (Inr [], 0))"
proof -
  have start: "get_item_ids db from_id r limit = get_item_ids_from db (- 1) limit"
    using assms by (simp add: get_item_ids_def)
  have chain: "fst (get_item_ids_from db (- 1) limit)
      = Inr (map (\<lambda>n. header_id (blocks (nat n))) [0 .. min (uint limit - 1) (int H)])"
    if c: "contiguous_chain db H blocks"
  proof -
    have "get_item_ids_from db (- 1) limit =
        (Inr (map (\<lambda>n. header_id (blocks n)) [0 ..< 0 + min (unat limit) (Suc H - 0)]),
         of_nat (Suc H - 0 - unat limit))"
    proof (rule get_item_ids_from_contiguous [OF c])
      show "0 \<le> Suc H" by simp
      show "(- 1 :: u32) + 1 = of_nat 0" by simp
    qed
    then have run: "fst (get_item_ids_from db (- 1) limit)
        = Inr (map (\<lambda>n. header_id (blocks n)) [0 ..< min (unat limit) (Suc H)])"
      by (simp only: fst_conv add_0 diff_zero)
    have "min (uint limit - 1) (int H) = int (min (unat limit) (Suc H)) - 1"
      unfolding uint_nat by arith
    then have "map (\<lambda>n. header_id (blocks (nat n))) [0 .. min (uint limit - 1) (int H)]
        = map (\<lambda>n. header_id (blocks n)) [0 ..< min (unat limit) (Suc H)]"
      using map_upto_nat [of "\<lambda>n. header_id (blocks n)" "min (unat limit) (Suc H)"]
      by (simp only:)
    with run show ?thesis
      by (simp only:)
  qed
  have empty: "get_item_ids_from db (- 1) limit = (Inr [], 0)" if "head_block_num db = - 1"
    using that by (simp add: get_item_ids_from_def get_item_ids_loop.simps)
  have max32: "(4294967295 :: u32) = - 1"
    by simp
  show ?thesis
    unfolding max32 using start chain empty by simp
qed

theorem get_item_ids_from_zero_hash_witness:
  "get_item_ids (demo_chain 10) \<lparr>item_type = block_message_type, item_hash = 0\<rparr> 0 4
     = get_item_ids_from (demo_chain 10) 4294967295 4 \<and>
   fst (get_item_ids (demo_chain 10) \<lparr>item_type = block_message_type, item_hash = 0\<rparr> 0 4)
     = Inr [100, 101, 102, 103] \<and>
   get_item_ids demo_empty_chain \<lparr>item_type = block_message_type, item_hash = 0\<rparr> 0 4
     = (Inr [], 0)"
proof -
  have c: "contiguous_chain (demo_chain 10) 10 demo_header"
    by (rule demo_chain_contiguous) simp
  have t: "item_type \<lparr>item_type = block_message_type, item_hash = 0\<rparr> = block_message_type"
    and z: "item_hash \<lparr>item_type = block_message_type, item_hash = 0\<rparr> = 0"
    by simp_all
  have f: "fetch_block_num (demo_chain 10) 0 = Inl key_not_found_exception"
    and f': "fetch_block_num demo_empty_chain 0 = Inl key_not_found_exception"
    by (simp_all add: demo_chain_def demo_empty_chain_def)
  have e: "head_block_num demo_empty_chain = 4294967295"
    by (simp add: demo_empty_chain_def)
  note full = get_item_ids_from_zero_hash [OF t z f, of 0 4 10 demo_header]
  note empty = get_item_ids_from_zero_hash [OF t z f', of 0 4 10 demo_header]
  have ids: "map (\<lambda>n. header_id (demo_header (nat n))) [0 .. min (uint (4 :: u32) - 1) (int 10)]
               = [100, 101, 102, 103]"
    by (simp add: demo_header_def upto_rec1)
  have "fst (get_item_ids (demo_chain 10) \<lparr>item_type = block_message_type, item_hash = 0\<rparr> 0 4)
          = Inr [100, 101, 102, 103]"
    using full [THEN conjunct2, THEN conjunct1, THEN mp, OF c] by (simp only: ids)
  with full [THEN conjunct1] empty [THEN conjunct2, THEN conjunct2, THEN mp, OF e]
  show ?thesis
    by (intro conjI)
qed

subsection \<open>The inbound handler\<close>

lemma fold_umap_erase:
  "fold (\<lambda>t m. umap_erase (trx_id t) m) ts m = filter (\<lambda>p. fst p \<notin> trx_id ` set ts) m"
  by (induction ts arbitrary: m) (auto simp: umap_erase_def intro: filter_cong)

lemma umap_find_None_iff: "umap_find m k = None \<longleftrightarrow> k \<notin> fst ` set m"
  by (simp add: umap_find_def map_of_eq_None_iff)

text \<open>
  C2. \<open>on_new_block\<close>, by what \<open>push_block\<close> and then the wallet's scan do. When
  \<open>push_block\<close> throws, the exception is thrown on and the coordinator, its mempool
  included, is as before. When \<open>push_block\<close> returns, the chain is the one it returned
  and every transaction of the block has been erased from the mempool, whether it was
  there or not: the mempool keeps exactly the entries whose id is not the id of a
  transaction of the block, so no transaction of the block is found in it. The wallet
  then scans the chain, outside the \<^verbatim>\<open>try\<close>: when the scan returns, \<open>on_new_block\<close>
  returns; when the scan throws, its exception leaves \<open>on_new_block\<close> with the block
  pushed and the mempool purged, and nothing is undone.
\<close>

theorem on_new_block_push_then_scan:
  "(case push_block env (chain_db s) blk of
      Inl e \<Rightarrow> on_new_block env s blk = (Some e, s)
    | Inr db \<Rightarrow>
        chain_db (snd (on_new_block env s blk)) = db \<and>
        pending_trxs (snd (on_new_block env s blk))
          = filter (\<lambda>p. fst p \<notin> trx_id ` set (trxs blk)) (pending_trxs s) \<and>
        (\<forall>t \<in> set (trxs blk).
           umap_find (pending_trxs (snd (on_new_block env s blk))) (trx_id t) = None) \<and>
        (case scan_chain env (wallet s) db (block_num blk) of
           Inr w \<Rightarrow>
             on_new_block env s blk
               = (None, s\<lparr>chain_db := db,
                           pending_trxs := filter (\<lambda>p. fst p \<notin> trx_id ` set (trxs blk)) (pending_trxs s),
                           wallet := w\<rparr>)
         | Inl e \<Rightarrow>
             on_new_block env s blk
               = (Some e, s\<lparr>chain_db := db,
                             pending_trxs := filter (\<lambda>p. fst p \<notin> trx_id ` set (trxs blk)) (pending_trxs s)\<rparr>)))"
  by (auto simp: on_new_block_def Let_def fold_umap_erase umap_find_None_iff split: sum.splits)

theorem on_new_block_push_then_scan_witness:
  "on_new_block demo_env (demo_client True [(1, demo_trx 1), (2, demo_trx 2)]) (demo_block 7 [demo_trx 1])
     = (Some (fc_exception 1), demo_client True [(1, demo_trx 1), (2, demo_trx 2)]) \<and>
   fst (on_new_block demo_env (demo_client True [(1, demo_trx 1), (2, demo_trx 2)])
          (demo_block 11 [demo_trx 1, demo_trx 3])) = None \<and>
   pending_trxs (snd (on_new_block demo_env (demo_client True [(1, demo_trx 1), (2, demo_trx 2)])
          (demo_block 11 [demo_trx 1, demo_trx 3]))) = [(2, demo_trx 2)] \<and>
   umap_find (pending_trxs (snd (on_new_block demo_env (demo_client True [(1, demo_trx 1), (2, demo_trx 2)])
          (demo_block 11 [demo_trx 1, demo_trx 3])))) (trx_id (demo_trx 1)) = None"
proof -
  let ?s = "demo_client True [(1, demo_trx 1), (2, demo_trx 2)]"
  let ?bad = "demo_block 7 [demo_trx 1]"
  let ?good = "demo_block 11 [demo_trx 1, demo_trx 3]"
  have bad: "push_block demo_env (chain_db ?s) ?bad = Inl (fc_exception 1)"
    by (simp add: demo_env_def demo_client_def demo_push_block_def demo_block_def demo_chain_def)
  obtain db where good: "push_block demo_env (chain_db ?s) ?good = Inr db"
    by (simp add: demo_env_def demo_client_def demo_push_block_def demo_block_def demo_chain_def)
  have scan: "scan_chain demo_env (wallet ?s) db (block_num ?good) = Inr 12"
    by (simp add: demo_env_def demo_block_def)
  have rejected: "on_new_block demo_env ?s ?bad = (Some (fc_exception 1), ?s)"
    by (rule on_new_block_push_then_scan [of demo_env ?s ?bad, unfolded bad sum.case])
  note applied = on_new_block_push_then_scan [of demo_env ?s ?good, unfolded good scan sum.case]
  have 1: "fst (on_new_block demo_env ?s ?good) = None"
    using applied [THEN conjunct2, THEN conjunct2, THEN conjunct2] by simp
  have 2: "pending_trxs (snd (on_new_block demo_env ?s ?good)) = [(2, demo_trx 2)]"
    using applied [THEN conjunct2, THEN conjunct1]
    by (simp add: demo_client_def demo_block_def demo_trx_def)
  have 3: "umap_find (pending_trxs (snd (on_new_block demo_env ?s ?good))) (trx_id (demo_trx 1)) = None"
    using applied [THEN conjunct2, THEN conjunct2, THEN conjunct1, THEN bspec, of "demo_trx 1"]
    by (simp add: demo_block_def)
  from rejected 1 2 3 show ?thesis
    by (intro conjI)
qed

text \<open>
  The wallet's scan throws after the block has been pushed and the mempool purged:
  \<open>on_new_block\<close> ends with the exception, and the coordinator is not as it was. The
  head of the chain has gone from \<open>10\<close> to \<open>11\<close> and the transaction with id \<open>1\<close> has
  left the mempool. So the call neither completes nor leaves the state untouched.
\<close>

theorem on_new_block_scan_throws_after_push:
  "fst (on_new_block demo_env_scan_throws (demo_client True [(1, demo_trx 1), (2, demo_trx 2)])
          (demo_block 11 [demo_trx 1, demo_trx 3])) = Some (fc_exception 3) \<and>
   snd (on_new_block demo_env_scan_throws (demo_client True [(1, demo_trx 1), (2, demo_trx 2)])
          (demo_block 11 [demo_trx 1, demo_trx 3]))
     \<noteq> demo_client True [(1, demo_trx 1), (2, demo_trx 2)] \<and>
   head_block_num (chain_db (demo_client True [(1, demo_trx 1), (2, demo_trx 2)])) = 10 \<and>
   head_block_num (chain_db (snd (on_new_block demo_env_scan_throws
          (demo_client True [(1, demo_trx 1), (2, demo_trx 2)])
          (demo_block 11 [demo_trx 1, demo_trx 3])))) = 11 \<and>
   pending_trxs (demo_client True [(1, demo_trx 1), (2, demo_trx 2)])
     = [(1, demo_trx 1), (2, demo_trx 2)] \<and>
   pending_trxs (snd (on_new_block demo_env_scan_throws
          (demo_client True [(1, demo_trx 1), (2, demo_trx 2)])
          (demo_block 11 [demo_trx 1, demo_trx 3]))) = [(2, demo_trx 2)]"
proof -
  let ?s = "demo_client True [(1, demo_trx 1), (2, demo_trx 2)] :: nat client_impl"
  let ?r = "on_new_block demo_env_scan_throws ?s (demo_block 11 [demo_trx 1, demo_trx 3])"
  have thrown: "fst ?r = Some (fc_exception 3)"
    by (simp add: on_new_block_def demo_env_scan_throws_def demo_env_def demo_client_def
        demo_push_block_def demo_block_def demo_chain_def Let_def)
  have head: "head_block_num (chain_db ?s) = 10"
    by (simp add: demo_client_def demo_chain_def)
  have head': "head_block_num (chain_db (snd ?r)) = 11"
    by (simp add: on_new_block_def demo_env_scan_throws_def demo_env_def demo_client_def
        demo_push_block_def demo_block_def demo_chain_def Let_def)
  have pending: "pending_trxs ?s = [(1, demo_trx 1), (2, demo_trx 2)]"
    by (simp add: demo_client_def)
  have pending': "pending_trxs (snd ?r) = [(2, demo_trx 2)]"
    by (simp add: on_new_block_def demo_env_scan_throws_def demo_env_def demo_client_def
        demo_push_block_def demo_block_def demo_chain_def Let_def umap_erase_def demo_trx_def)
  have "snd ?r \<noteq> ?s"
  proof
    assume "snd ?r = ?s"
    then have "pending_trxs (snd ?r) = pending_trxs ?s"
      by simp
    then show False
      unfolding pending pending' by simp
  qed
  with thrown head head' pending pending' show ?thesis
    by (intro conjI)
qed

lemma umap_find_append:
  "umap_find (m @ [(k, t)]) k' =
     (case umap_find m k' of Some v \<Rightarrow> Some v | None \<Rightarrow> if k' = k then Some t else None)"
  by (simp add: umap_find_def map_add_def split: option.splits)

lemma umap_find_insert:
  "umap_find (fst (umap_insert (k, t) m)) k = (case umap_find m k of None \<Rightarrow> Some t | Some v \<Rightarrow> Some v)"
  by (simp add: umap_insert_def umap_find_append split: option.splits)

text \<open>
  C3. \<open>on_new_transaction\<close> evaluates the transaction first. When the evaluation
  throws, the exception leaves the function and the coordinator, its mempool included,
  is as before. When the transaction is valid, the function returns, the chain is the
  same, and the mempool has an entry under the transaction's id: the transaction
  itself when the id was new. When the id is already there, the insertion reports a
  duplicate (\<open>False\<close>) and nothing changes; so handling the same valid transaction a
  second time leaves the mempool, and its size, as the first time left it.
\<close>

theorem on_new_transaction_evaluates_first:
  "(evaluate_transaction (chain_db s) t = Some e \<longrightarrow> on_new_transaction s t = (Some e, s)) \<and>
   (evaluate_transaction (chain_db s) t = None \<longrightarrow>
      fst (on_new_transaction s t) = None \<and>
      chain_db (snd (on_new_transaction s t)) = chain_db s \<and>
      umap_find (pending_trxs (snd (on_new_transaction s t))) (trx_id t) \<noteq> None \<and>
      (umap_find (pending_trxs s) (trx_id t) = None \<longrightarrow>
         umap_insert (trx_id t, t) (pending_trxs s) = (pending_trxs s @ [(trx_id t, t)], True) \<and>
         umap_find (pending_trxs (snd (on_new_transaction s t))) (trx_id t) = Some t) \<and>
      (umap_find (pending_trxs s) (trx_id t) \<noteq> None \<longrightarrow>
         umap_insert (trx_id t, t) (pending_trxs s) = (pending_trxs s, False) \<and>
         on_new_transaction s t = (None, s)) \<and>
      snd (umap_insert (trx_id t, t) (pending_trxs (snd (on_new_transaction s t)))) = False \<and>
      on_new_transaction (snd (on_new_transaction s t)) t = (None, snd (on_new_transaction s t)) \<and>
      length (pending_trxs (snd (on_new_transaction (snd (on_new_transaction s t)) t)))
        = length (pending_trxs (snd (on_new_transaction s t))))"
proof -
  have present: "umap_find (fst (umap_insert (trx_id t, t) (pending_trxs s))) (trx_id t) \<noteq> None"
    by (simp add: umap_find_insert split: option.splits)
  have again: "umap_insert (trx_id t, t) (fst (umap_insert (trx_id t, t) (pending_trxs s)))
                 = (fst (umap_insert (trx_id t, t) (pending_trxs s)), False)"
    using present by (simp add: umap_insert_def [of _ "fst _"])
  show ?thesis
    using present again
    by (auto simp: on_new_transaction_def umap_find_insert umap_find_append
        umap_insert_def [of _ "pending_trxs s"])
qed

theorem on_new_transaction_evaluates_first_witness:
  "on_new_transaction (demo_client True []) demo_invalid_trx
     = (Some (fc_exception 0), demo_client True []) \<and>
   fst (on_new_transaction (demo_client True []) (demo_trx 1)) = None \<and>
   chain_db (snd (on_new_transaction (demo_client True []) (demo_trx 1))) = demo_chain 10 \<and>
   umap_find (pending_trxs (snd (on_new_transaction (demo_client True []) (demo_trx 1)))) 1
     = Some (demo_trx 1) \<and>
   on_new_transaction (demo_client True [(1, demo_trx 1)]) (demo_trx 1)
     = (None, demo_client True [(1, demo_trx 1)])"
  using
    on_new_transaction_evaluates_first [of "demo_client True []" demo_invalid_trx "fc_exception 0"]
    on_new_transaction_evaluates_first [of "demo_client True []" "demo_trx 1" "fc_exception 0"]
    on_new_transaction_evaluates_first [of "demo_client True [(1, demo_trx 1)]" "demo_trx 1" "fc_exception 0"]
  by (simp add: demo_client_def demo_chain_def demo_invalid_trx_def demo_trx_def umap_find_def)

subsection \<open>\<open>broadcast_transaction\<close> and \<open>get_item\<close>\<close>

text \<open>
  C4. \<open>broadcast_transaction\<close> in peer mode, when the node takes the message and the
  transaction is valid: the coordinator applies the transaction to itself with
  \<open>on_new_transaction\<close>, so the call returns with the transaction in the mempool and no
  echo is needed. In client-server mode the call leaves the mempool as it was, so a
  transaction that was not in it is still not in it; it gets there when the server's
  echo is handled by \<open>on_new_transaction\<close>.
\<close>

theorem broadcast_transaction_echo_asymmetry:
  "(transport s = P2p_node n \<longrightarrow>
      node_broadcast env n (Trx_message \<lparr>trx = t\<rparr>) = None \<longrightarrow>
      evaluate_transaction (chain_db s) t = None \<longrightarrow>
        broadcast_transaction env s t
          = on_new_transaction
              (s\<lparr>transport := P2p_node (n\<lparr>broadcasts := broadcasts n @ [Trx_message \<lparr>trx = t\<rparr>]\<rparr>)\<rparr>) t \<and>
        fst (broadcast_transaction env s t) = None \<and>
        umap_find (pending_trxs (snd (broadcast_transaction env s t))) (trx_id t) \<noteq> None \<and>
        (umap_find (pending_trxs s) (trx_id t) = None \<longrightarrow>
           umap_find (pending_trxs (snd (broadcast_transaction env s t))) (trx_id t) = Some t)) \<and>
   (transport s = Chain_client cc \<longrightarrow>
      pending_trxs (snd (broadcast_transaction env s t)) = pending_trxs s \<and>
      (umap_find (pending_trxs s) (trx_id t) = None \<longrightarrow>
         umap_find (pending_trxs (snd (broadcast_transaction env s t))) (trx_id t) = None) \<and>
      (evaluate_transaction (chain_db s) t = None \<longrightarrow>
         umap_find (pending_trxs (snd (on_new_transaction (snd (broadcast_transaction env s t)) t)))
           (trx_id t) \<noteq> None))"
  by (auto simp: broadcast_transaction_def on_new_transaction_def Let_def umap_find_insert
      split: option.splits)

theorem broadcast_transaction_echo_asymmetry_witness:
  "fst (broadcast_transaction demo_env (demo_client True []) (demo_trx 1)) = None \<and>
   umap_find (pending_trxs (snd (broadcast_transaction demo_env (demo_client True []) (demo_trx 1))))
       (trx_id (demo_trx 1))
     = Some (demo_trx 1) \<and>
   umap_find (pending_trxs (snd (broadcast_transaction demo_env (demo_client False []) (demo_trx 1))))
       (trx_id (demo_trx 1))
     = None \<and>
   umap_find (pending_trxs (snd (on_new_transaction
       (snd (broadcast_transaction demo_env (demo_client False []) (demo_trx 1))) (demo_trx 1))))
       (trx_id (demo_trx 1))
     \<noteq> None"
proof -
  let ?peer = "demo_client True [] :: nat client_impl"
  let ?client = "demo_client False [] :: nat client_impl"
  have p2p: "transport ?peer = P2p_node \<lparr>broadcasts = []\<rparr>"
    and server: "transport ?client = Chain_client \<lparr>sent_blocks = [], sent_transactions = []\<rparr>"
    by (simp_all add: demo_client_def client_impl_transport_def)
  have sent: "node_broadcast demo_env \<lparr>broadcasts = []\<rparr> (Trx_message \<lparr>trx = demo_trx 1\<rparr>) = None"
    by (simp add: demo_env_def)
  have valid: "evaluate_transaction (chain_db ?peer) (demo_trx 1) = None"
    "evaluate_transaction (chain_db ?client) (demo_trx 1) = None"
    by (simp_all add: demo_client_def demo_chain_def demo_trx_def)
  have fresh: "umap_find (pending_trxs ?peer) (trx_id (demo_trx 1)) = None"
    "umap_find (pending_trxs ?client) (trx_id (demo_trx 1)) = None"
    by (simp_all add: demo_client_def umap_find_def)
  note peer = broadcast_transaction_echo_asymmetry
    [of ?peer "\<lparr>broadcasts = []\<rparr>" demo_env "demo_trx 1", THEN conjunct1, rule_format,
     OF p2p sent valid(1)]
  note client = broadcast_transaction_echo_asymmetry
    [of ?client _ demo_env "demo_trx 1" "\<lparr>sent_blocks = [], sent_transactions = []\<rparr>",
     THEN conjunct2, rule_format, OF server]
  from peer fresh(1) client fresh(2) valid(2) show ?thesis
    by blast
qed

text \<open>
  C10. In peer mode \<open>broadcast_transaction\<close> hands the transaction to the node before
  it evaluates it: when the evaluation throws, the exception reaches the caller and the
  mempool is as before, and the broadcast of the invalid transaction has been made.
\<close>

theorem broadcast_transaction_gossips_before_validating:
  assumes "transport s = P2p_node n"
    and "node_broadcast env n (Trx_message \<lparr>trx = t\<rparr>) = None"
    and "evaluate_transaction (chain_db s) t = Some e"
  shows "broadcast_transaction env s t
           = (Some e, s\<lparr>transport := P2p_node (n\<lparr>broadcasts := broadcasts n @ [Trx_message \<lparr>trx = t\<rparr>]\<rparr>)\<rparr>) \<and>
         pending_trxs (snd (broadcast_transaction env s t)) = pending_trxs s \<and>
         transport (snd (broadcast_transaction env s t))
           = P2p_node (n\<lparr>broadcasts := broadcasts n @ [Trx_message \<lparr>trx = t\<rparr>]\<rparr>)"
  using assms by (simp add: broadcast_transaction_def on_new_transaction_def Let_def)

theorem broadcast_transaction_gossips_before_validating_witness:
  "fst (broadcast_transaction demo_env (demo_client True []) demo_invalid_trx) = Some (fc_exception 0) \<and>
   pending_trxs (snd (broadcast_transaction demo_env (demo_client True []) demo_invalid_trx)) = [] \<and>
   transport (snd (broadcast_transaction demo_env (demo_client True []) demo_invalid_trx))
     = P2p_node \<lparr>broadcasts = [Trx_message \<lparr>trx = demo_invalid_trx\<rparr>]\<rparr>"
  using broadcast_transaction_gossips_before_validating
    [of "demo_client True []" "\<lparr>broadcasts = []\<rparr>" demo_env demo_invalid_trx "fc_exception 0"]
  by (simp add: demo_client_def client_impl_transport_def demo_env_def demo_chain_def
      demo_invalid_trx_def)

lemma get_item_block_message:
  assumes "item_type i = block_message_type"
    and "fetch_block_num (chain_db s) (item_hash i) = Inr n"
    and "fetch_trx_block (chain_db s) n = Inr b"
    and "header_id b = item_hash i"
  shows "get_item s i
           = Inr (Block_message \<lparr>block_id = item_hash i, block = b, signature = trustee_signature b\<rparr>)"
  using assms by (simp add: get_item_def)

lemma get_item_other_type:
  "item_type i \<noteq> block_message_type \<Longrightarrow> get_item s i = Inl key_not_found_exception"
  by (simp add: get_item_def)

lemma get_item_unknown_block:
  "item_type i = block_message_type \<Longrightarrow>
   fetch_block_num (chain_db s) (item_hash i) = Inl key_not_found_exception \<Longrightarrow>
   get_item s i = Inl key_not_found_exception"
  by (simp add: get_item_def)

text \<open>
  C6. The specification has \<open>get_item\<close> return the message of a transaction that is in
  the mempool. The source does not: here the mempool holds the transaction with id \<open>1\<close>,
  and \<open>get_item\<close> for the item \<open>(trx_message_type, 1)\<close> throws \<open>key_not_found_exception\<close>.
\<close>

theorem get_item_pending_trx_not_found:
  "umap_find (pending_trxs (demo_client True [(1, demo_trx 1)])) (trx_id (demo_trx 1))
     = Some (demo_trx 1) \<and>
   get_item (demo_client True [(1, demo_trx 1)])
       \<lparr>item_type = trx_message_type, item_hash = trx_id (demo_trx 1)\<rparr>
     = Inl key_not_found_exception"
  by (simp add: get_item_def demo_client_def demo_trx_def umap_find_def trx_message_type_def block_message_type_def)

subsection \<open>The trustee loop\<close>

lemma last_block_on_new_block [simp]:
  "last_block (snd (on_new_block env s blk)) = last_block s"
  by (simp add: on_new_block_def Let_def split: sum.splits)

lemma last_block_on_new_transaction [simp]:
  "last_block (snd (on_new_transaction s t)) = last_block s"
  by (simp add: on_new_transaction_def split: option.splits)

lemma last_block_broadcast_transaction [simp]:
  "last_block (snd (broadcast_transaction env s t)) = last_block s"
  by (simp add: broadcast_transaction_def Let_def split: transport.splits option.splits)

lemma last_block_handle_message [simp]:
  "last_block (snd (handle_message env s m)) = last_block s"
  by (simp add: handle_message_def split: message.splits)

lemma last_block_run_call [simp]:
  "last_block (snd (run_call env s c)) = last_block s"
  by (cases c) simp_all

lemma last_block_usleep [simp]:
  "last_block (usleep env s calls) = last_block s"
  unfolding usleep_def by (induction calls arbitrary: s) simp_all

lemma last_block_produce_block [simp]:
  "last_block (snd (produce_block env s pending)) = last_block s"
  by (simp add: produce_block_def Let_def split: sum.splits transport.splits option.splits)

lemma trustee_iteration_last_block:
  "last_block (trustee_iteration env g d s) =
     (if get_pending_transactions s \<noteq> [] \<and> seconds 30 < g - last_block s \<and>
         fst (produce_block env s (get_pending_transactions s)) = None
      then d else last_block s)"
proof -
  obtain r s1 where p: "produce_block env s (get_pending_transactions s) = (r, s1)"
    by (cases "produce_block env s (get_pending_transactions s)")
  have "last_block s1 = last_block s"
    using last_block_produce_block [of env s "get_pending_transactions s"] p by simp
  with p show ?thesis
    by (cases r) (simp_all add: trustee_iteration_def Let_def)
qed

lemma trustee_iteration_mono:
  "g \<le> d \<Longrightarrow> last_block s \<le> last_block (trustee_iteration env g d s)"
  by (simp add: trustee_iteration_last_block seconds_def)

lemma trustee_iterations_append:
  "trustee_iterations env s (c1 @ c2) = trustee_iterations env (trustee_iterations env s c1) c2"
  by (induction c1 arbitrary: s) simp_all

lemma trustee_iterations_mono:
  "\<forall>t \<in> set ticks. now_gate t \<le> now_done t \<Longrightarrow>
   last_block s \<le> last_block (trustee_iterations env s ticks)"
proof (induction ticks arbitrary: s)
  case Nil
  show ?case by simp
next
  case (Cons t ticks)
  have "last_block s \<le> last_block (trustee_iteration env (now_gate t) (now_done t) s)"
    using Cons.prems by (simp add: trustee_iteration_mono)
  also have "\<dots> = last_block (usleep env (trustee_iteration env (now_gate t) (now_done t) s) (during_sleep t))"
    by simp
  also have "\<dots> \<le> last_block (trustee_iterations env
      (usleep env (trustee_iteration env (now_gate t) (now_done t) s) (during_sleep t)) ticks)"
    using Cons.prems by (intro Cons.IH) simp
  finally show ?case by simp
qed

text \<open>
  C5. One iteration of the trustee loop, with \<open>g\<close> and \<open>d\<close> the clock's readings in
  lines 77 and 93. Unless the snapshot of the mempool is non-empty and more than 30
  seconds have passed since \<^verbatim>\<open>_last_block\<close>, the iteration leaves the coordinator as it
  is: no block is assembled, signed or broadcast. \<^verbatim>\<open>_last_block\<close> changes only when
  the gate is open and the production returns without an exception, and then it is \<open>d\<close>;
  when the production throws \<open>e\<close>, the loop goes on with the state the exception left
  and \<^verbatim>\<open>_last_block\<close> is as before. \<^verbatim>\<open>_last_block\<close> is not guarded against a smaller
  value. While the loop runs it never decreases if, in every iteration, the clock does
  not read less in line 93 than it read in line 77, whatever the other tasks call during
  the sleeps. The start of the loop sets it to the timestamp of the head of the chain,
  which does not lower it if that timestamp is not before the value it had.
\<close>

theorem trustee_loop_gate_and_last_block:
  "(\<not> (get_pending_transactions s \<noteq> [] \<and> seconds 30 < g - last_block s) \<longrightarrow>
      trustee_iteration env g d s = s) \<and>
   (last_block (trustee_iteration env g d s) \<noteq> last_block s \<longrightarrow>
      get_pending_transactions s \<noteq> [] \<and> seconds 30 < g - last_block s \<and>
      fst (produce_block env s (get_pending_transactions s)) = None \<and>
      last_block (trustee_iteration env g d s) = d) \<and>
   (get_pending_transactions s \<noteq> [] \<and> seconds 30 < g - last_block s \<and>
    fst (produce_block env s (get_pending_transactions s)) = None \<longrightarrow>
      trustee_iteration env g d s
        = (snd (produce_block env s (get_pending_transactions s)))\<lparr>last_block := d\<rparr>) \<and>
   (fst (produce_block env s (get_pending_transactions s)) = Some e \<longrightarrow>
      last_block (trustee_iteration env g d s) = last_block s \<and>
      (get_pending_transactions s \<noteq> [] \<and> seconds 30 < g - last_block s \<longrightarrow>
         trustee_iteration env g d s = snd (produce_block env s (get_pending_transactions s)))) \<and>
   ((\<forall>t \<in> set (before @ after). now_gate t \<le> now_done t) \<longrightarrow>
      last_block (trustee_loop env s before) \<le> last_block (trustee_loop env s (before @ after)) \<and>
      (last_block s \<le> timestamp (get_head_block (chain_db s)) \<longrightarrow>
         last_block s \<le> last_block (trustee_loop env s before))) \<and>
   last_block (trustee_loop env s []) = timestamp (get_head_block (chain_db s))"
proof -
  let ?pending = "get_pending_transactions s"
  let ?gate = "?pending \<noteq> [] \<and> seconds 30 < g - last_block s"
  let ?made = "produce_block env s ?pending"
  let ?next = "trustee_iteration env g d s"
  have closed: "?next = s" if "\<not> ?gate"
    using that by (auto simp: trustee_iteration_def Let_def)
  have advanced: "?gate \<and> fst ?made = None \<and> last_block ?next = d"
    if "last_block ?next \<noteq> last_block s"
    using that by (simp add: trustee_iteration_last_block split: if_splits)
  have published: "?next = (snd ?made)\<lparr>last_block := d\<rparr>" if "?gate" "fst ?made = None"
    using that by (cases ?made) (simp add: trustee_iteration_def Let_def)
  have failed: "last_block ?next = last_block s \<and> (?gate \<longrightarrow> ?next = snd ?made)"
    if "fst ?made = Some e"
  proof
    show "last_block ?next = last_block s"
      using that by (simp add: trustee_iteration_last_block)
    show "?gate \<longrightarrow> ?next = snd ?made"
      using that by (cases ?made) (simp add: trustee_iteration_def Let_def)
  qed
  have mono: "last_block (trustee_loop env s before) \<le> last_block (trustee_loop env s (before @ after))"
    if "\<forall>t \<in> set (before @ after). now_gate t \<le> now_done t"
  proof -
    from that have "\<forall>t \<in> set after. now_gate t \<le> now_done t"
      by simp
    then show ?thesis
      unfolding trustee_loop_def trustee_iterations_append by (rule trustee_iterations_mono)
  qed
  have start: "last_block s \<le> last_block (trustee_loop env s before)"
    if "\<forall>t \<in> set (before @ after). now_gate t \<le> now_done t"
      and "last_block s \<le> timestamp (get_head_block (chain_db s))"
  proof -
    from that(1) have "\<forall>t \<in> set before. now_gate t \<le> now_done t"
      by simp
    then have "last_block (s\<lparr>last_block := timestamp (get_head_block (chain_db s))\<rparr>)
        \<le> last_block (trustee_loop env s before)"
      unfolding trustee_loop_def by (rule trustee_iterations_mono)
    with that(2) show ?thesis
      by simp
  qed
  have init: "last_block (trustee_loop env s []) = timestamp (get_head_block (chain_db s))"
    by (simp add: trustee_loop_def)
  from closed advanced published failed mono start init show ?thesis
    by blast
qed

lemma demo_produce_block:
  "fst (produce_block demo_env (demo_client True [(1, demo_trx 1)])
     (get_pending_transactions (demo_client True [(1, demo_trx 1)]))) = None"
  by (simp add: produce_block_def on_new_block_def demo_env_def demo_client_def client_impl_transport_def
      demo_push_block_def demo_block_def demo_chain_def get_pending_transactions_def Let_def)

lemma demo_produce_block_state:
  "pending_trxs (snd (produce_block demo_env
       (demo_client True [(1, demo_trx 1)])
       (get_pending_transactions (demo_client True [(1, demo_trx 1)]))))
     = [] \<and>
   transport (snd (produce_block demo_env
       (demo_client True [(1, demo_trx 1)])
       (get_pending_transactions (demo_client True [(1, demo_trx 1)]))))
     = P2p_node \<lparr>broadcasts =
         [Block_message
            \<lparr>block_id = 111,
             block = (demo_block 11 [demo_trx 1])\<lparr>trustee_signature := 42\<rparr>,
             signature = 42\<rparr>]\<rparr>"
  by (simp add: produce_block_def on_new_block_def demo_env_def demo_client_def client_impl_transport_def
      demo_push_block_def demo_block_def demo_chain_def get_pending_transactions_def Let_def
      umap_erase_def demo_trx_def)

theorem trustee_loop_gate_and_last_block_witness:
  "trustee_iteration demo_env (seconds 31) (seconds 32) (demo_client True []) = demo_client True [] \<and>
   fst (produce_block demo_env (demo_client True [(1, demo_trx 1)])
     (get_pending_transactions (demo_client True [(1, demo_trx 1)]))) = None \<and>
   last_block (trustee_iteration demo_env (seconds 31) (seconds 32)
     (demo_client True [(1, demo_trx 1)])) = seconds 32 \<and>
   pending_trxs (trustee_iteration demo_env (seconds 31) (seconds 32)
     (demo_client True [(1, demo_trx 1)])) = [] \<and>
   transport (trustee_iteration demo_env (seconds 31) (seconds 32)
     (demo_client True [(1, demo_trx 1)]))
     = P2p_node \<lparr>broadcasts =
         [Block_message
            \<lparr>block_id = 111,
             block = (demo_block 11 [demo_trx 1])\<lparr>trustee_signature := 42\<rparr>,
             signature = 42\<rparr>]\<rparr> \<and>
   last_block (trustee_iteration demo_env_wallet_throws (seconds 31) (seconds 32)
     (demo_client True [(1, demo_trx 1)])) = 0 \<and>
   last_block (trustee_loop demo_env (demo_client True [(1, demo_trx 1)])
       (take 1 demo_ticks))
     \<le> last_block (trustee_loop demo_env (demo_client True [(1, demo_trx 1)])
       demo_ticks) \<and>
   last_block (demo_client True [(1, demo_trx 1)])
     \<le> last_block (trustee_loop demo_env (demo_client True [(1, demo_trx 1)])
       (take 1 demo_ticks)) \<and>
   last_block (trustee_loop demo_env (demo_client True [(1, demo_trx 1)]) []) = seconds 10"
proof -
  let ?idle = "demo_client True [] :: nat client_impl"
  let ?busy = "demo_client True [(1, demo_trx 1)] :: nat client_impl"
  have no_trx: "\<not> (get_pending_transactions ?idle \<noteq> [] \<and> seconds 30 < seconds 31 - last_block ?idle)"
    by (simp add: get_pending_transactions_def demo_client_def)
  have gate: "get_pending_transactions ?busy \<noteq> [] \<and> seconds 30 < seconds 31 - last_block ?busy"
    by (simp add: get_pending_transactions_def demo_client_def seconds_def)
  have thrown: "fst (produce_block demo_env_wallet_throws ?busy (get_pending_transactions ?busy))
      = Some (fc_exception 2)"
    by (simp add: produce_block_def demo_env_wallet_throws_def)
  have zero: "last_block ?busy = 0"
    by (simp add: demo_client_def)
  have clock: "\<forall>t \<in> set (take 1 demo_ticks @ drop 1 demo_ticks). now_gate t \<le> now_done t"
    by (simp add: demo_ticks_def seconds_def)
  note idle = trustee_loop_gate_and_last_block
    [of ?idle "seconds 31" demo_env "seconds 32", THEN conjunct1, THEN mp, OF no_trx]
  note made = trustee_loop_gate_and_last_block
    [of ?busy "seconds 31" demo_env "seconds 32", THEN conjunct2, THEN conjunct2, THEN conjunct1,
     THEN mp, OF conjI [OF gate [THEN conjunct1] conjI [OF gate [THEN conjunct2] demo_produce_block]]]
  have applied: "pending_trxs (trustee_iteration demo_env (seconds 31) (seconds 32) ?busy) = []"
    unfolding made using demo_produce_block_state [THEN conjunct1] by simp
  have published: "transport (trustee_iteration demo_env (seconds 31) (seconds 32) ?busy)
      = P2p_node \<lparr>broadcasts =
          [Block_message
             \<lparr>block_id = 111,
              block = (demo_block 11 [demo_trx 1])\<lparr>trustee_signature := 42\<rparr>,
              signature = 42\<rparr>]\<rparr>"
    unfolding made using demo_produce_block_state [THEN conjunct2] by simp
  from made have now: "last_block (trustee_iteration demo_env (seconds 31) (seconds 32) ?busy) = seconds 32"
    by simp
  then have "last_block (trustee_iteration demo_env (seconds 31) (seconds 32) ?busy) \<noteq> last_block ?busy"
    unfolding zero by (simp add: seconds_def)
  note advanced = trustee_loop_gate_and_last_block
    [of ?busy "seconds 31" demo_env "seconds 32", THEN conjunct2, THEN conjunct1, THEN mp, OF this]
  note failed = trustee_loop_gate_and_last_block
    [of ?busy "seconds 31" demo_env_wallet_throws "seconds 32" "fc_exception 2",
     THEN conjunct2, THEN conjunct2, THEN conjunct2, THEN conjunct1, THEN mp, OF thrown]
  note mono = trustee_loop_gate_and_last_block
    [of ?busy "seconds 31" demo_env "seconds 32" "fc_exception 2" "take 1 demo_ticks" "drop 1 demo_ticks",
     THEN conjunct2, THEN conjunct2, THEN conjunct2, THEN conjunct2, THEN conjunct1, THEN mp, OF clock]
  note init = trustee_loop_gate_and_last_block
    [of ?busy "seconds 31" demo_env "seconds 32" "fc_exception 2" "take 1 demo_ticks" "drop 1 demo_ticks",
     THEN conjunct2, THEN conjunct2, THEN conjunct2, THEN conjunct2, THEN conjunct2]
  have head: "last_block ?busy \<le> timestamp (get_head_block (chain_db ?busy))"
    by (simp add: demo_client_def demo_chain_def demo_header_def seconds_def)
  note start = mono [THEN conjunct2, THEN mp, OF head]
  have ts: "timestamp (get_head_block (chain_db ?busy)) = seconds 10"
    by (simp add: demo_client_def demo_chain_def demo_header_def)
  from idle advanced applied published failed [unfolded zero]
    mono [THEN conjunct1, unfolded append_take_drop_id] start init [unfolded ts]
  show ?thesis
    by blast
qed

text \<open>
  \<^verbatim>\<open>_last_block\<close> decreases in two ways. In a run of the loop on \<open>demo_chain 10\<close>,
  whose head has the timestamp of 10 seconds: the loop starts with \<^verbatim>\<open>_last_block\<close> at 10
  seconds; in the first iteration the clock reads 100 seconds in line 77, the gate is
  open and the block is produced, and the clock reads 5 seconds in line 93, which
  becomes \<^verbatim>\<open>_last_block\<close>. And at the start of the loop: a coordinator whose
  \<^verbatim>\<open>_last_block\<close> is at 50 seconds starts the loop, and line 72 sets it to 10 seconds.
\<close>

theorem trustee_loop_last_block_decreases:
  "last_block (trustee_loop demo_env (demo_client True [(1, demo_trx 1)]) []) = seconds 10 \<and>
   last_block (trustee_loop demo_env (demo_client True [(1, demo_trx 1)]) [demo_backward_tick])
     = seconds 5 \<and>
   last_block (trustee_loop demo_env (demo_client True [(1, demo_trx 1)]) [demo_backward_tick])
     < last_block (trustee_loop demo_env (demo_client True [(1, demo_trx 1)]) []) \<and>
   last_block ((demo_client True [(1, demo_trx 1)])\<lparr>last_block := seconds 50\<rparr>) = seconds 50 \<and>
   last_block (trustee_loop demo_env ((demo_client True [(1, demo_trx 1)])\<lparr>last_block := seconds 50\<rparr>) [])
     = seconds 10 \<and>
   last_block (trustee_loop demo_env ((demo_client True [(1, demo_trx 1)])\<lparr>last_block := seconds 50\<rparr>) [])
     < last_block ((demo_client True [(1, demo_trx 1)])\<lparr>last_block := seconds 50\<rparr>)"
proof -
  let ?s = "demo_client True [(1, demo_trx 1)] :: nat client_impl"
  let ?started = "?s\<lparr>last_block := timestamp (get_head_block (chain_db ?s))\<rparr>"
  have ts: "timestamp (get_head_block (chain_db ?s)) = seconds 10"
    by (simp add: demo_client_def demo_chain_def demo_header_def)
  have start: "last_block (trustee_loop demo_env ?s []) = seconds 10"
    using ts by (simp add: trustee_loop_def)
  have made: "fst (produce_block demo_env ?started (get_pending_transactions ?started)) = None"
    by (simp add: produce_block_def on_new_block_def demo_env_def demo_client_def
        client_impl_transport_def demo_push_block_def demo_block_def demo_chain_def
        get_pending_transactions_def Let_def)
  have gate: "get_pending_transactions ?started \<noteq> [] \<and>
      seconds 30 < seconds 100 - last_block ?started"
    using ts by (simp add: get_pending_transactions_def demo_client_def seconds_def)
  have "last_block (trustee_iteration demo_env (seconds 100) (seconds 5) ?started) = seconds 5"
    using gate made by (simp add: trustee_iteration_last_block)
  then have lowered: "last_block (trustee_loop demo_env ?s [demo_backward_tick]) = seconds 5"
    by (simp add: trustee_loop_def demo_backward_tick_def)
  have restart: "last_block (trustee_loop demo_env (?s\<lparr>last_block := seconds 50\<rparr>) []) = seconds 10"
    using ts by (simp add: trustee_loop_def)
  have held: "last_block (?s\<lparr>last_block := seconds 50\<rparr>) = seconds 50"
    by simp
  have lt: "seconds 5 < seconds 10" "seconds 10 < seconds 50"
    by (simp_all add: seconds_def)
  show ?thesis
    unfolding start lowered restart held using lt by simp
qed


end
